theory Spec2Isabelle
  imports Complex_Main
begin

section \<open>JavaScript strings, character classes and numbers\<close>

text \<open>
  The two Playwright scripts \<^verbatim>\<open>tests/bluestar.spec.ts\<close> and \<^verbatim>\<open>tests/bluestar_all.spec.ts\<close>
  are embedded function by function. A JavaScript string is a \<^typ>\<open>string\<close>: one
  \<^typ>\<open>char\<close> per code unit, which covers every text whose code units are below 256.
  The character classes are those of the regular expressions and of \<^verbatim>\<open>String.trim\<close>.
\<close>

definition is_digit :: "char \<Rightarrow> bool" where
  \<comment> \<open>\<^verbatim>\<open>[0-9]\<close> and \<^verbatim>\<open>\d\<close>\<close>
  "is_digit c = (c \<in> set ''0123456789'')"

definition is_space :: "char \<Rightarrow> bool" where
  \<comment> \<open>\<^verbatim>\<open>\s\<close> and the characters \<^verbatim>\<open>trim\<close> removes: TAB, LF, VT, FF, CR, SPACE, NBSP\<close>
  "is_space c = (c \<in> set [CHR 0x09, CHR 0x0A, CHR 0x0B, CHR 0x0C, CHR 0x0D, CHR 0x20, CHR 0xA0])"

definition is_word :: "char \<Rightarrow> bool" where
  \<comment> \<open>\<^verbatim>\<open>\w\<close>, the class \<^verbatim>\<open>\b\<close> is defined by\<close>
  "is_word c = (c \<in> set ''abcdefghijklmnopqrstuvwxyzABCDEFGHIJKLMNOPQRSTUVWXYZ0123456789_'')"

definition is_sep :: "char \<Rightarrow> bool" where
  \<comment> \<open>\<^verbatim>\<open>[:#-]\<close>\<close>
  "is_sep c = (c \<in> set '':#-'')"

definition not_newline :: "char \<Rightarrow> bool" where
  \<comment> \<open>\<^verbatim>\<open>[^\n]\<close>\<close>
  "not_newline c = (c \<noteq> CHR 0x0A)"

definition any_char :: "char \<Rightarrow> bool" where
  \<comment> \<open>\<^verbatim>\<open>[\s\S]\<close>\<close>
  "any_char c = True"

definition is_dollar :: "char \<Rightarrow> bool" where
  \<comment> \<open>\<^verbatim>\<open>\$\<close>\<close>
  "is_dollar c = (c = CHR ''$'')"

definition is_amount :: "char \<Rightarrow> bool" where
  \<comment> \<open>\<^verbatim>\<open>[\d,.]\<close>\<close>
  "is_amount c = (is_digit c \<or> c = CHR '','' \<or> c = CHR ''.'')"

definition upper :: "char \<Rightarrow> char" where
  \<comment> \<open>the canonical form flag \<^verbatim>\<open>i\<close> compares by; the labels are ASCII, and a character
      outside ASCII never canonicalises to an ASCII one\<close>
  "upper c = (case map_of (zip ''abcdefghijklmnopqrstuvwxyz'' ''ABCDEFGHIJKLMNOPQRSTUVWXYZ'') c of
                Some u \<Rightarrow> u | None \<Rightarrow> c)"

definition trim :: "string \<Rightarrow> string" where
  "trim s = rev (dropWhile is_space (rev (dropWhile is_space s)))"

text \<open>
  A JavaScript number is either \<^verbatim>\<open>NaN\<close> or finite. A finite number is represented by
  the exact decimal value of the literal it was parsed from: the rounding of that value to
  a double, and the overflow of a literal of more than 308 digits, are outside the
  embedding.
\<close>

datatype number = NaN | Finite rat

definition digit_value :: "char \<Rightarrow> nat" where
  "digit_value c = of_char c - 48"

definition digits_value :: "string \<Rightarrow> nat" where
  "digits_value ds = foldl (\<lambda>a d. 10 * a + digit_value d) 0 ds"

definition unsigned_decimal :: "string \<Rightarrow> number" where
  \<comment> \<open>StrUnsignedDecimalLiteral without exponent: \<^verbatim>\<open>12\<close>, \<^verbatim>\<open>12.\<close>, \<^verbatim>\<open>12.5\<close>, \<^verbatim>\<open>.5\<close>\<close>
  "unsigned_decimal s =
     (let ip = takeWhile is_digit s; r = dropWhile is_digit s in
      if r = [] then (if ip = [] then NaN else Finite (of_nat (digits_value ip)))
      else if hd r = CHR ''.'' \<and> dropWhile is_digit (tl r) = [] \<and> (ip \<noteq> [] \<or> tl r \<noteq> [])
      then Finite (of_nat (digits_value ip) + of_nat (digits_value (tl r)) / 10 ^ length (tl r))
      else NaN)"

definition Number :: "string \<Rightarrow> number" where
  \<comment> \<open>\<^verbatim>\<open>Number(s)\<close> on the strings the program passes to it: digits, \<^verbatim>\<open>.\<close> and \<^verbatim>\<open>-\<close> only
      (no white space, no \<^verbatim>\<open>+\<close>, no exponent, no letters). The empty string is 0.\<close>
  "Number s =
     (if s = [] then Finite 0
      else if hd s = CHR ''-''
      then (case unsigned_decimal (tl s) of NaN \<Rightarrow> NaN | Finite q \<Rightarrow> Finite (- q))
      else unsigned_decimal s)"

definition parseInt :: "string \<Rightarrow> number" where
  \<comment> \<open>\<^verbatim>\<open>Number.parseInt(s, 10)\<close>: leading white space, an optional sign, then the longest
      prefix of digits; \<^verbatim>\<open>NaN\<close> when that prefix is empty\<close>
  "parseInt s =
     (let t = dropWhile is_space s;
          u = (if t \<noteq> [] \<and> (hd t = CHR ''-'' \<or> hd t = CHR ''+'') then tl t else t);
          ds = takeWhile is_digit u
      in if ds = [] then NaN
         else if t \<noteq> [] \<and> hd t = CHR ''-'' then Finite (- of_nat (digits_value ds))
         else Finite (of_nat (digits_value ds)))"

section \<open>The numeric coercions of the Excel writers\<close>

definition parsePriceToNumber :: "string option \<Rightarrow> rat option" where
  \<comment> \<open>\<^verbatim>\<open>if (!p) return null; const n = Number(p.replace(/[^0-9.\-]/g, ''));
      return Number.isFinite(n) ? n : null\<close>\<close>
  "parsePriceToNumber p =
     (case p of
        None \<Rightarrow> None
      | Some s \<Rightarrow>
          if s = [] then None
          else (case Number (filter (\<lambda>c. is_digit c \<or> c = CHR ''.'' \<or> c = CHR ''-'') s) of
                  NaN \<Rightarrow> None
                | Finite n \<Rightarrow> Some n))"

definition parseStockToNumber :: "string option \<Rightarrow> rat option" where
  \<comment> \<open>\<^verbatim>\<open>if (!s) return null; const cleaned = s.replace(/[^0-9\-]/g, '');
      if (!cleaned) return null; const n = Number.parseInt(cleaned, 10);
      return Number.isNaN(n) ? null : n\<close>\<close>
  "parseStockToNumber s =
     (case s of
        None \<Rightarrow> None
      | Some t \<Rightarrow>
          if t = [] then None
          else (let cleaned = filter (\<lambda>c. is_digit c \<or> c = CHR ''-'') t in
                if cleaned = [] then None
                else (case parseInt cleaned of NaN \<Rightarrow> None | Finite n \<Rightarrow> Some n)))"

text \<open>
  The values the program hands to the spreadsheet library and reads from it:
  \<^verbatim>\<open>undefined\<close>, \<^verbatim>\<open>null\<close> (the value the writers store for an absent field), a string, a
  number, or rich text (the texts of its runs). A cell holds any of these but
  \<^verbatim>\<open>undefined\<close>, which the library skips when cells are assigned. The other kinds of cell
  value of the library (dates, formulas, hyperlinks) behave like a number wherever the
  program looks at a cell.
\<close>

datatype cellvalue = Undefined | Null | Str string | Num rat | Rich "string list"

definition text_cell :: "string option \<Rightarrow> cellvalue" where
  \<comment> \<open>\<^verbatim>\<open>rec.field ?? null\<close>\<close>
  "text_cell v = (case v of None \<Rightarrow> Null | Some s \<Rightarrow> Str s)"

definition price_cell :: "string option \<Rightarrow> cellvalue" where
  \<comment> \<open>\<^verbatim>\<open>parsePriceToNumber(rec.price) ?? rec.price ?? null\<close>\<close>
  "price_cell p = (case parsePriceToNumber p of Some n \<Rightarrow> Num n | None \<Rightarrow> text_cell p)"

definition stock_cell :: "string option \<Rightarrow> cellvalue" where
  \<comment> \<open>\<^verbatim>\<open>parseStockToNumber(rec.stock) ?? rec.stock ?? null\<close>\<close>
  "stock_cell s = (case parseStockToNumber s of Some n \<Rightarrow> Num n | None \<Rightarrow> text_cell s)"

section \<open>The regular expressions of the field extractor\<close>

text \<open>
  Every regular expression of \<open>extractProductDetails\<close> is a sequence of the atoms below,
  each quantifier applied to one character class. \<open>run\<close> is the backtracking matcher of
  ECMAScript on such a sequence: a greedy quantifier tries the longest repetition first, a
  lazy one the shortest, and the first alternative under which the rest of the pattern
  matches is taken. The flag of an item says whether it lies inside the capture group.
\<close>

datatype atom =
    WordBoundary
  | Literal string
  | Single "char \<Rightarrow> bool"
  | Optional "char \<Rightarrow> bool"
  | Greedy0 "char \<Rightarrow> bool"
  | Greedy1 "char \<Rightarrow> bool"
  | Lazy0 "char \<Rightarrow> bool"
  | EndOfInput

type_synonym regex = "(bool \<times> atom) list"

fun first_some :: "('a \<Rightarrow> 'b option) \<Rightarrow> 'a list \<Rightarrow> 'b option" where
  "first_some f [] = None"
| "first_some f (x # xs) = (case f x of Some y \<Rightarrow> Some y | None \<Rightarrow> first_some f xs)"

definition word_at :: "char option \<Rightarrow> bool" where
  "word_at c = (case c of None \<Rightarrow> False | Some d \<Rightarrow> is_word d)"

definition next_char :: "string \<Rightarrow> char option" where
  "next_char inp = (case inp of [] \<Rightarrow> None | c # _ \<Rightarrow> Some c)"

definition last_char :: "char option \<Rightarrow> string \<Rightarrow> char option" where
  \<comment> \<open>the character before the position reached after consuming \<open>s\<close>\<close>
  "last_char prev s = (if s = [] then prev else Some (last s))"

definition literal_at :: "string \<Rightarrow> string \<Rightarrow> bool" where
  \<comment> \<open>the input starts with the literal text, letters compared without regard to case\<close>
  "literal_at s inp = (length s \<le> length inp \<and> map upper (take (length s) inp) = map upper s)"

fun run :: "regex \<Rightarrow> char option \<Rightarrow> string \<Rightarrow> string \<Rightarrow> string option" where
  "run [] prev inp cap = Some cap"
| "run ((g, a) # r) prev inp cap =
     (let advance = (\<lambda>k. run r (last_char prev (take k inp)) (drop k inp)
                               (if g then cap @ take k inp else cap));
          most = (\<lambda>p. length (takeWhile p inp))
      in case a of
           WordBoundary \<Rightarrow>
             if word_at prev \<noteq> word_at (next_char inp) then advance 0 else None
         | Literal s \<Rightarrow>
             if literal_at s inp then advance (length s) else None
         | Single p \<Rightarrow> if 1 \<le> most p then advance 1 else None
         | Optional p \<Rightarrow> first_some advance (if 1 \<le> most p then [1, 0] else [0])
         | Greedy0 p \<Rightarrow> first_some advance (rev [0 ..< Suc (most p)])
         | Greedy1 p \<Rightarrow> first_some advance (rev [1 ..< Suc (most p)])
         | Lazy0 p \<Rightarrow> first_some advance [0 ..< Suc (most p)]
         | EndOfInput \<Rightarrow> if inp = [] then advance 0 else None)"

declare run.simps(2) [simp del]

definition regex_match :: "regex \<Rightarrow> string \<Rightarrow> string option" where
  \<comment> \<open>\<^verbatim>\<open>text.match(re)\<close> for a regular expression without flag \<^verbatim>\<open>g\<close>: the captured text of
      the leftmost match, \<open>None\<close> when there is no match\<close>
  "regex_match re t =
     first_some (\<lambda>i. run re (last_char None (take i t)) (drop i t) []) [0 ..< Suc (length t)]"

definition label_regex :: "string \<Rightarrow> regex" where
  \<comment> \<open>\<^verbatim>\<open>/\bLABEL\s*[:#-]?\s*([^\n]+)/i\<close>\<close>
  "label_regex label =
     [(False, WordBoundary), (False, Literal label), (False, Greedy0 is_space),
      (False, Optional is_sep), (False, Greedy0 is_space), (True, Greedy1 not_newline)]"

definition description_regex :: regex where
  \<comment> \<open>\<^verbatim>\<open>/\bDescription\s*[:#-]?\s*([^\n][\s\S]*?)$/i\<close>\<close>
  "description_regex =
     [(False, WordBoundary), (False, Literal ''Description''), (False, Greedy0 is_space),
      (False, Optional is_sep), (False, Greedy0 is_space), (True, Single not_newline),
      (True, Lazy0 any_char), (False, EndOfInput)]"

definition price_regex :: regex where
  \<comment> \<open>\<^verbatim>\<open>/\$[\d,.]+/\<close>; the program reads the whole match, so every item is captured\<close>
  "price_regex = [(True, Single is_dollar), (True, Greedy1 is_amount)]"

section \<open>The field extractor\<close>

record ProductRecord =
  productUrl :: string
  productName :: "string option"
  sku :: "string option"
  mpn :: "string option"
  manufacturer :: "string option"
  price :: "string option"
  stock :: "string option"
  description :: "string option"

text \<open>
  What the page driver hands to \<open>extractProductDetails\<close>: the address of the page and the
  three texts it asks for, \<open>None\<close> where the driver's call is rejected (or
  \<^verbatim>\<open>textContent\<close> is \<^verbatim>\<open>null\<close>); each rejection is caught at the call.
\<close>

record page =
  url :: string
  h1_textContent :: "string option"
  details_innerText :: "string option"
  body_innerText :: "string option"

definition or_null :: "string \<Rightarrow> string option" where
  \<comment> \<open>\<^verbatim>\<open>s || null\<close>: the empty string is falsy\<close>
  "or_null s = (if s = [] then None else Some s)"

definition js_or :: "string option \<Rightarrow> string option \<Rightarrow> string option" where
  \<comment> \<open>\<^verbatim>\<open>a || b\<close> on operands that are a string or \<^verbatim>\<open>null\<close>\<close>
  "js_or a b = (case a of None \<Rightarrow> b | Some s \<Rightarrow> if s = [] then b else Some s)"

definition or_empty :: "string option \<Rightarrow> string" where
  \<comment> \<open>\<^verbatim>\<open>.catch(() => '')\<close> and \<^verbatim>\<open>process.env.X || ''\<close>\<close>
  "or_empty v = (case v of None \<Rightarrow> [] | Some s \<Rightarrow> s)"

definition matchAfter :: "string \<Rightarrow> regex \<Rightarrow> string option" where
  \<comment> \<open>\<^verbatim>\<open>const m = detailsText.match(labelRegex); if (!m) return null;
      return m[1]?.trim() || null\<close>\<close>
  "matchAfter detailsText labelRegex =
     (case regex_match labelRegex detailsText of
        None \<Rightarrow> None
      | Some m1 \<Rightarrow> or_null (trim m1))"

definition details_text :: "page \<Rightarrow> string" where
  \<comment> \<open>\<^verbatim>\<open>(await detailsLocator.first().innerText().catch(() => '')) ||
      (await page.innerText('body').catch(() => ''))\<close>\<close>
  "details_text pg =
     (if or_empty (details_innerText pg) \<noteq> [] then or_empty (details_innerText pg)
      else or_empty (body_innerText pg))"

definition extractProductDetails :: "page \<Rightarrow> ProductRecord" where
  "extractProductDetails pg =
     (let detailsText = details_text pg
      in \<lparr> productUrl = url pg,
           productName = (case h1_textContent pg of None \<Rightarrow> None | Some t \<Rightarrow> or_null (trim t)),
           sku = js_or (js_or (matchAfter detailsText (label_regex ''SKU''))
                              (matchAfter detailsText (label_regex ''Item''))) None,
           mpn = js_or (matchAfter detailsText (label_regex ''MPN'')) None,
           manufacturer = js_or (matchAfter detailsText (label_regex ''MANUFACTURER'')) None,
           price = regex_match price_regex detailsText,
           stock = js_or (matchAfter detailsText (label_regex ''Current Stock'')) None,
           description = js_or (matchAfter detailsText description_regex) None \<rparr>)"

section \<open>The worksheet of the spreadsheet library\<close>

text \<open>
  A JavaScript array is a list of options: \<open>None\<close> is a hole, an index the array has no
  element of its own at; \<open>Some Undefined\<close> is an element that is there and is
  \<^verbatim>\<open>undefined\<close>. An array built by assigning to indices from 1 on has a hole at index
  0; an array literal \<^verbatim>\<open>[undefined, ...]\<close> has an element at index 0. A row is the list
  of its cells, the cell of column \<open>n\<close> at index \<open>n - 1\<close>; \<open>None\<close> means the row has no cell
  there, \<open>Some Null\<close> that a cell was stored with the value \<^verbatim>\<open>null\<close>. A worksheet is the
  list of its rows (row 1 first) and the keys of its columns. Widths, number formats and
  the frozen view are display settings and are left out.

  The operations are those of the library. \<^verbatim>\<open>rowCount\<close> is the number of the last row.
  \<^verbatim>\<open>row.values\<close> reads the cells that are not \<^verbatim>\<open>null\<close> into an array indexed by column
  number. Assigning an array to \<^verbatim>\<open>row.values\<close> replaces all cells of the row: the setter
  tests whether the array has an element of its own at index 0
  (\<^verbatim>\<open>value.hasOwnProperty('0')\<close>); if it has, the array is taken as contiguous and the
  element of index \<open>n\<close> goes to column \<open>n + 1\<close>, otherwise as sparse and the element of
  index \<open>n\<close> goes to column \<open>n\<close>; holes and elements that are \<^verbatim>\<open>undefined\<close> give no
  cell. Assigning \<^verbatim>\<open>sheet.columns\<close> sets the keys and writes each column's header into
  row 1, leaving the cells of row 1 beyond the last column as they are. \<^verbatim>\<open>addRow\<close> adds
  a row after the last one and assigns the array, or the object read by the column keys,
  to its values. The workbook file a run writes is the worksheet the next run reads.
\<close>

type_synonym 'a jsarray = "'a option list"

type_synonym row = "cellvalue jsarray"

record worksheet =
  rows :: "row list"
  columnKeys :: "string list"

definition addWorksheet :: worksheet where
  "addWorksheet = \<lparr> rows = [], columnKeys = [] \<rparr>"

definition rowCount :: "worksheet \<Rightarrow> nat" where
  "rowCount sheet = length (rows sheet)"

definition header_row :: "worksheet \<Rightarrow> row" where
  \<comment> \<open>\<^verbatim>\<open>sheet.getRow(1)\<close>: row 1, an empty row when the worksheet has no rows\<close>
  "header_row sheet = (case rows sheet of [] \<Rightarrow> [] | r # _ \<Rightarrow> r)"

definition strip_holes :: "'a jsarray \<Rightarrow> 'a jsarray" where
  \<comment> \<open>the length of an array is one more than its last index in use\<close>
  "strip_holes a = rev (dropWhile (\<lambda>x. x = None) (rev a))"

definition row_values :: "row \<Rightarrow> cellvalue jsarray" where
  \<comment> \<open>the getter \<^verbatim>\<open>row.values\<close>\<close>
  "row_values r = strip_holes (None # map (\<lambda>c. if c = Some Null then None else c) r)"

definition cell_of :: "cellvalue option \<Rightarrow> cellvalue option" where
  \<comment> \<open>\<^verbatim>\<open>if (item !== undefined) cell.value = item\<close>: the cell an item of an array or
      a property of an object gives, none for a hole and for \<^verbatim>\<open>undefined\<close>\<close>
  "cell_of item = (if item = Some Undefined then None else item)"

definition set_row_values :: "cellvalue jsarray \<Rightarrow> row" where
  \<comment> \<open>the setter \<^verbatim>\<open>row.values = array\<close>: \<^verbatim>\<open>offset\<close> is 1 when the array has an element
      of its own at index 0, and the item of index \<open>n\<close> goes to column \<open>n + offset\<close>\<close>
  "set_row_values a =
     (let offset = (case a of Some _ # _ \<Rightarrow> Suc 0 | _ \<Rightarrow> 0)
      in drop (1 - offset) (map cell_of a))"

definition spread :: "cellvalue jsarray \<Rightarrow> cellvalue jsarray" where
  \<comment> \<open>the elements \<^verbatim>\<open>...a\<close> of an array literal: a hole of \<open>a\<close> is read as
      \<^verbatim>\<open>undefined\<close>\<close>
  "spread a = map (\<lambda>x. case x of None \<Rightarrow> Some Undefined | Some v \<Rightarrow> Some v) a"

definition set_columns :: "(string \<times> string) list \<Rightarrow> worksheet \<Rightarrow> worksheet" where
  \<comment> \<open>\<^verbatim>\<open>sheet.columns = defs\<close>, each definition a header and a key\<close>
  "set_columns defs sheet =
     (let headerCells = map (\<lambda>(header, key). Some (Str header)) defs
      in sheet \<lparr> rows := (headerCells @ drop (length headerCells) (header_row sheet))
                           # tl (rows sheet),
                 columnKeys := map snd defs \<rparr>)"

definition addRow_array :: "cellvalue jsarray \<Rightarrow> worksheet \<Rightarrow> worksheet" where
  "addRow_array a sheet = sheet \<lparr> rows := rows sheet @ [set_row_values a] \<rparr>"

definition addRow_object :: "(string \<times> cellvalue) list \<Rightarrow> worksheet \<Rightarrow> worksheet" where
  "addRow_object obj sheet =
     sheet \<lparr> rows := rows sheet @ [map (\<lambda>key. cell_of (map_of obj key)) (columnKeys sheet)] \<rparr>"

definition arr_set :: "'a jsarray \<Rightarrow> nat option \<Rightarrow> 'a \<Rightarrow> 'a jsarray" where
  \<comment> \<open>\<^verbatim>\<open>a[i] = v\<close>; with \<open>i\<close> undefined the assignment sets a property that is no element\<close>
  "arr_set a i v =
     (case i of
        None \<Rightarrow> a
      | Some n \<Rightarrow> if n < length a then a[n := Some v]
                  else a @ replicate (n - length a) None @ [Some v])"

section \<open>The Excel writers\<close>

definition defaultHeaders :: "string list" where
  "defaultHeaders =
     [''DATE'', ''TIME'', ''Item Name'', ''SKU'', ''DESCRIPTION'', ''MPN'', ''MANUFACTURER'',
      ''PRICE'', ''STOCK'', ''PRODUCT URL'']"

definition columnDefs :: "(string \<times> string) list" where
  "columnDefs =
     [(''DATE'', ''runDate''), (''TIME'', ''runTime''), (''Item Name'', ''productName''),
      (''SKU'', ''sku''), (''DESCRIPTION'', ''description''), (''MPN'', ''mpn''),
      (''MANUFACTURER'', ''manufacturer''), (''PRICE'', ''price''), (''STOCK'', ''stock''),
      (''PRODUCT URL'', ''productUrl'')]"

definition header_text :: "cellvalue \<Rightarrow> string" where
  \<comment> \<open>\<^verbatim>\<open>typeof v === 'string' ? v : v?.richText?.map((rt) => rt.text).join('') || ''\<close>\<close>
  "header_text v = (case v of Str s \<Rightarrow> s | Rich ts \<Rightarrow> concat ts | _ \<Rightarrow> [])"

definition read_headers :: "row \<Rightarrow> string jsarray" where
  \<comment> \<open>\<^verbatim>\<open>headerRow.values.slice(1).map(...)\<close>\<close>
  "read_headers headerRow = map (map_option header_text) (drop 1 (row_values headerRow))"

definition headerIndex :: "string jsarray \<Rightarrow> string \<Rightarrow> nat option" where
  \<comment> \<open>\<^verbatim>\<open>headers.forEach((h, idx) => { headerIndex[h] = idx + 1; })\<close>\<close>
  "headerIndex headers =
     fold (\<lambda>(idx, h) m. case h of None \<Rightarrow> m | Some name \<Rightarrow> m(name \<mapsto> idx + 1))
          (enumerate 0 headers) Map.empty"

definition truthy :: "nat option \<Rightarrow> bool" where
  "truthy i = (case i of None \<Rightarrow> False | Some n \<Rightarrow> n \<noteq> 0)"

definition rowValues :: "(string \<Rightarrow> nat option) \<Rightarrow> string \<Rightarrow> string \<Rightarrow> ProductRecord \<Rightarrow> cellvalue jsarray"
  where
  \<comment> \<open>the body of the loop of \<open>writeExcel\<close> in \<^verbatim>\<open>bluestar_all.spec.ts\<close>\<close>
  "rowValues hi runDate runTime rec =
     (let a0 = [];
          a1 = arr_set a0 (hi ''DATE'') (Str runDate);
          a2 = arr_set a1 (hi ''TIME'') (Str runTime);
          a3 = arr_set a2 (hi ''Item Name'') (text_cell (productName rec));
          a4 = arr_set a3 (hi ''SKU'') (text_cell (sku rec));
          a5 = arr_set a4 (hi ''DESCRIPTION'') (text_cell (description rec));
          a6 = arr_set a5 (hi ''MPN'') (text_cell (mpn rec));
          a7 = (if truthy (hi ''MANUFACTURER'')
                then arr_set a6 (hi ''MANUFACTURER'') (text_cell (manufacturer rec)) else a6);
          a8 = arr_set a7 (hi ''PRICE'') (price_cell (price rec));
          a9 = arr_set a8 (hi ''STOCK'') (stock_cell (stock rec))
      in arr_set a9 (hi ''PRODUCT URL'') (Str (productUrl rec)))"

definition open_sheet :: "worksheet option \<Rightarrow> worksheet" where
  \<comment> \<open>the worksheet read from the file, or a new one: the argument is \<open>None\<close> when the
      file is absent or cannot be read (the program catches either failure)\<close>
  "open_sheet existing = (case existing of None \<Rightarrow> addWorksheet | Some sheet \<Rightarrow> sheet)"

definition build_headers :: "worksheet \<Rightarrow> string jsarray \<times> worksheet" where
  \<comment> \<open>the block \<^verbatim>\<open>Build or extend headers\<close> of \<^verbatim>\<open>bluestar_all.spec.ts\<close>: the array
      \<^verbatim>\<open>headers\<close> and the worksheet after the block\<close>
  "build_headers sheet =
     (if rowCount sheet = 0 then (map Some defaultHeaders, set_columns columnDefs sheet)
      else (let headerRow = header_row sheet;
                headers = read_headers headerRow
            in if Some ''MANUFACTURER'' \<in> set headers then (headers, sheet)
               else (let headers = headers @ [Some ''MANUFACTURER''];
                         newHeaderValues = Some Undefined # spread (map (map_option Str) headers)
                     in (headers,
                         sheet \<lparr> rows := set_row_values newHeaderValues # tl (rows sheet) \<rparr>))))"

definition writeExcel :: "worksheet option \<Rightarrow> ProductRecord list \<Rightarrow> string \<Rightarrow> string \<Rightarrow> worksheet"
  where
  \<comment> \<open>\<open>writeExcel\<close> of \<^verbatim>\<open>bluestar_all.spec.ts\<close>. The strings are the date and the time of
      the run as formatted; the result is the worksheet written to the file.\<close>
  "writeExcel existing records runDate runTime =
     (let sheet = open_sheet existing;
          headers = fst (build_headers sheet);
          sheet1 = snd (build_headers sheet)
      in fold (\<lambda>rec. addRow_array (rowValues (headerIndex headers) runDate runTime rec))
              records sheet1)"

definition row_object :: "string \<Rightarrow> string \<Rightarrow> ProductRecord \<Rightarrow> (string \<times> cellvalue) list" where
  \<comment> \<open>the object the inline writer of \<^verbatim>\<open>bluestar.spec.ts\<close> passes to \<^verbatim>\<open>addRow\<close>\<close>
  "row_object runDate runTime rec =
     [(''runDate'', Str runDate), (''runTime'', Str runTime),
      (''productName'', text_cell (productName rec)), (''sku'', text_cell (sku rec)),
      (''description'', text_cell (description rec)), (''mpn'', text_cell (mpn rec)),
      (''manufacturer'', text_cell (manufacturer rec)), (''price'', price_cell (price rec)),
      (''stock'', stock_cell (stock rec)), (''productUrl'', Str (productUrl rec))]"

definition enforce_headers :: "worksheet \<Rightarrow> worksheet" where
  \<comment> \<open>the block \<^verbatim>\<open>Canonical columns and header enforcement\<close> of \<^verbatim>\<open>bluestar.spec.ts\<close>\<close>
  "enforce_headers sheet =
     (if rowCount sheet = 0 then set_columns columnDefs sheet
      else set_columns columnDefs
             (sheet \<lparr> rows := set_row_values
                                (Some Undefined # map (\<lambda>h. Some (Str h)) defaultHeaders)
                              # tl (rows sheet) \<rparr>))"

definition writeExcel_inline :: "worksheet option \<Rightarrow> ProductRecord list \<Rightarrow> string \<Rightarrow> string \<Rightarrow> worksheet"
  where
  \<comment> \<open>the function expression \<open>writeExcel\<close> called in place in \<^verbatim>\<open>bluestar.spec.ts\<close>\<close>
  "writeExcel_inline existing records runDate runTime =
     fold (\<lambda>rec. addRow_object (row_object runDate runTime rec)) records
          (enforce_headers (open_sheet existing))"

definition arr_get :: "'a jsarray \<Rightarrow> nat \<Rightarrow> 'a option" where
  \<comment> \<open>\<^verbatim>\<open>a[i]\<close>, undefined beyond the length and at a hole\<close>
  "arr_get a i = (if i < length a then a ! i else None)"

definition cell_at :: "row \<Rightarrow> nat \<Rightarrow> cellvalue option" where
  \<comment> \<open>the cell of column \<open>n\<close> (columns count from 1), \<open>None\<close> when the row has none there\<close>
  "cell_at r n = (if 1 \<le> n then arr_get r (n - 1) else None)"

definition header_names :: "worksheet \<Rightarrow> string jsarray" where
  \<comment> \<open>the header names as the program reads them from row 1\<close>
  "header_names sheet = read_headers (header_row sheet)"

definition data_rows :: "worksheet \<Rightarrow> row list" where
  \<comment> \<open>the rows below the header row\<close>
  "data_rows sheet = drop 1 (rows sheet)"

text \<open>Inputs used in the examples: a record, and a workbook written before the column
  MANUFACTURER existed, with one row of data.\<close>

definition page_with_text :: "string \<Rightarrow> page" where
  \<comment> \<open>a product page whose details container renders the given text\<close>
  "page_with_text t =
     \<lparr> url = ''https://shop/p/1'', h1_textContent = Some ''Test strips'',
       details_innerText = Some t, body_innerText = None \<rparr>"

definition example_record :: ProductRecord where
  "example_record =
     \<lparr> productUrl = ''https://shop/p/1'', productName = Some ''Test strips'',
       sku = Some ''BS-1'', mpn = None, manufacturer = Some ''ACME'', price = Some ''$5.50'',
       stock = Some ''3 left'', description = None \<rparr>"

definition url_only_record :: ProductRecord where
  "url_only_record =
     \<lparr> productUrl = ''https://shop/p/2'', productName = None, sku = None, mpn = None,
       manufacturer = None, price = None, stock = None, description = None \<rparr>"

definition legacy_sheet :: worksheet where
  "legacy_sheet =
     \<lparr> rows = [map (\<lambda>h. Some (Str h))
                 [''DATE'', ''TIME'', ''Item Name'', ''SKU'', ''DESCRIPTION'', ''MPN'', ''PRICE'',
                  ''STOCK'', ''PRODUCT URL''],
               [Some (Str ''01/02/2024''), Some (Str ''09:00 AM PST''), Some (Str ''Lancets''),
                Some (Str ''L-7''), Some Null, Some Null, Some (Num 4), Some (Num 10),
                Some (Str ''https://shop/p/0'')]],
       columnKeys = [] \<rparr>"


section \<open>The login step\<close>

text \<open>
  The start of both tests: the output directory is created, then \<open>loginIfNeeded\<close> runs.
  The environment is a map from variable names to values. Every call to the file system
  or the page driver is an action; \<open>ok\<close> says which actions succeed, and the trace lists the
  actions attempted so far. The wait for the login form to go away catches its own
  failure and is no action that can fail.
\<close>

datatype action =
    Mkdir
  | Goto string
  | Click string
  | Fill string string
  | WaitForLoadState

datatype failure = ConfigError string | ActionFailed action

fun perform :: "(action \<Rightarrow> bool) \<Rightarrow> action list \<Rightarrow> action list \<Rightarrow> failure option \<times> action list" where
  "perform ok [] trace = (None, trace)"
| "perform ok (a # as) trace =
     (if ok a then perform ok as (trace @ [a]) else (Some (ActionFailed a), trace @ [a]))"

definition LOGIN_URL :: string where
  "LOGIN_URL = ''https://www.medstatsupplies.com/scs/checkout.ssp?is=login&login=T&fragment=login-register#login-register''"

definition loginIfNeeded :: "(string \<rightharpoonup> string) \<Rightarrow> (action \<Rightarrow> bool) \<Rightarrow> action list \<Rightarrow> failure option \<times> action list"
  where
  "loginIfNeeded env ok trace =
     (let email = or_empty (env ''MEDSTAT_EMAIL'');
          password = or_empty (env ''MEDSTAT_PASSWORD'')
      in if email = [] \<or> password = []
         then (Some (ConfigError ''Please set MEDSTAT_EMAIL and MEDSTAT_PASSWORD in your .env file.''), trace)
         else perform ok
                [Goto LOGIN_URL, Click ''Email Address'', Fill ''Email Address'' email,
                 Click ''Password'', Fill ''Password'' password, Click ''Log In'',
                 WaitForLoadState] trace)"

definition test_until_login :: "(string \<rightharpoonup> string) \<Rightarrow> (action \<Rightarrow> bool) \<Rightarrow> failure option \<times> action list"
  where
  \<comment> \<open>\<^verbatim>\<open>await ensureOutputDir(); await loginIfNeeded(page);\<close>\<close>
  "test_until_login env ok =
     (case perform ok [Mkdir] [] of
        (None, trace) \<Rightarrow> loginIfNeeded env ok trace
      | (Some e, trace) \<Rightarrow> (Some e, trace))"

definition is_navigation :: "action \<Rightarrow> bool" where
  "is_navigation a = (case a of Goto _ \<Rightarrow> True | _ \<Rightarrow> False)"

section \<open>Lemmas on the worksheet and the writers\<close>

lemma defined_cells:
  "text_cell v \<noteq> Undefined" "price_cell p \<noteq> Undefined" "stock_cell s \<noteq> Undefined"
  by (simp_all add: text_cell_def price_cell_def stock_cell_def split: option.splits)

lemma cell_of_None: "cell_of None = None"
  by (simp add: cell_of_def)


lemma cell_of_cells:
  "cell_of (Some (Str x)) = Some (Str x)"
  "cell_of (Some (text_cell v)) = Some (text_cell v)"
  "cell_of (Some (price_cell p)) = Some (price_cell p)"
  "cell_of (Some (stock_cell s)) = Some (stock_cell s)"
  by (simp_all add: cell_of_def defined_cells)


lemma header_row_append:
  "rows sheet = xs @ ys \<Longrightarrow> xs \<noteq> [] \<Longrightarrow> header_row sheet = (case xs of [] \<Rightarrow> [] | r # _ \<Rightarrow> r)"
  by (cases xs) (simp_all add: header_row_def)

lemma rows_fold_addRow_array:
  "rows (fold (\<lambda>rec. addRow_array (f rec)) records sheet) =
     rows sheet @ map (\<lambda>rec. set_row_values (f rec)) records"
  by (induction records arbitrary: sheet) (simp_all add: addRow_array_def)


lemma rows_fold_addRow_object:
  "rows (fold (\<lambda>rec. addRow_object (g rec)) records sheet) =
     rows sheet @ map (\<lambda>rec. map (\<lambda>key. cell_of (map_of (g rec) key)) (columnKeys sheet)) records"
  by (induction records arbitrary: sheet) (simp_all add: addRow_object_def)

lemma writeExcel_rows:
  "rows (writeExcel existing records d t) =
     rows (snd (build_headers (open_sheet existing)))
     @ map (\<lambda>rec. set_row_values
                     (rowValues (headerIndex (fst (build_headers (open_sheet existing)))) d t rec))
           records"
  by (simp add: writeExcel_def Let_def rows_fold_addRow_array)

lemma columnKeys_enforce_headers:
  "columnKeys (enforce_headers sheet) =
     [''runDate'', ''runTime'', ''productName'', ''sku'', ''description'', ''mpn'',
      ''manufacturer'', ''price'', ''stock'', ''productUrl'']"
  by (simp add: enforce_headers_def set_columns_def header_row_def Let_def columnDefs_def)

lemma writeExcel_inline_rows:
  "rows (writeExcel_inline existing records d t) =
     rows (enforce_headers (open_sheet existing))
     @ map (\<lambda>rec. [Some (Str d), Some (Str t), Some (text_cell (productName rec)),
                    Some (text_cell (sku rec)), Some (text_cell (description rec)),
                    Some (text_cell (mpn rec)), Some (text_cell (manufacturer rec)),
                    Some (price_cell (price rec)), Some (stock_cell (stock rec)),
                    Some (Str (productUrl rec))]) records"
  by (simp add: writeExcel_inline_def rows_fold_addRow_object columnKeys_enforce_headers
      row_object_def cell_of_cells)

lemma headerIndex_default:
  "headerIndex (map Some defaultHeaders) ''DATE'' = Some 1"
  "headerIndex (map Some defaultHeaders) ''TIME'' = Some 2"
  "headerIndex (map Some defaultHeaders) ''Item Name'' = Some 3"
  "headerIndex (map Some defaultHeaders) ''SKU'' = Some 4"
  "headerIndex (map Some defaultHeaders) ''DESCRIPTION'' = Some 5"
  "headerIndex (map Some defaultHeaders) ''MPN'' = Some 6"
  "headerIndex (map Some defaultHeaders) ''MANUFACTURER'' = Some 7"
  "headerIndex (map Some defaultHeaders) ''PRICE'' = Some 8"
  "headerIndex (map Some defaultHeaders) ''STOCK'' = Some 9"
  "headerIndex (map Some defaultHeaders) ''PRODUCT URL'' = Some 10"
  by (simp_all add: headerIndex_def defaultHeaders_def)

lemma canonical_row:
  "set_row_values (rowValues (headerIndex (map Some defaultHeaders)) d t rec) =
     [Some (Str d), Some (Str t), Some (text_cell (productName rec)), Some (text_cell (sku rec)),
      Some (text_cell (description rec)), Some (text_cell (mpn rec)),
      Some (text_cell (manufacturer rec)), Some (price_cell (price rec)),
      Some (stock_cell (stock rec)), Some (Str (productUrl rec))]"
  by (simp add: rowValues_def headerIndex_default arr_set_def truthy_def set_row_values_def Let_def
      cell_of_cells cell_of_None)

lemma build_headers_fresh:
  "rows sheet = [] \<Longrightarrow> fst (build_headers sheet) = map Some defaultHeaders"
  "rows sheet = [] \<Longrightarrow> rows (snd (build_headers sheet)) = [map (\<lambda>h. Some (Str h)) defaultHeaders]"
  by (simp_all add: build_headers_def rowCount_def set_columns_def header_row_def columnDefs_def defaultHeaders_def)

lemma enforce_headers_fresh:
  "rows sheet = [] \<Longrightarrow> rows (enforce_headers sheet) = [map (\<lambda>h. Some (Str h)) defaultHeaders]"
  by (simp add: enforce_headers_def rowCount_def set_columns_def header_row_def columnDefs_def defaultHeaders_def)
























lemma read_headers_default:
  "read_headers (map (\<lambda>h. Some (Str h)) defaultHeaders) = map Some defaultHeaders"
  by (simp add: read_headers_def row_values_def strip_holes_def defaultHeaders_def header_text_def)


lemma cell_of_spread: "map cell_of (spread (map (map_option Str) hs)) = map (map_option Str) hs"
  by (induction hs) (auto simp: spread_def cell_of_def split: option.splits)

lemma set_row_values_literal:
  "set_row_values (Some Undefined # spread (map (map_option Str) hs)) = None # map (map_option Str) hs"
  by (simp add: set_row_values_def cell_of_spread cell_of_def)

lemma set_row_values_canonical:
  "set_row_values (Some Undefined # map (\<lambda>h. Some (Str h)) defaultHeaders)
     = None # map (\<lambda>h. Some (Str h)) defaultHeaders"
  by (simp add: set_row_values_def cell_of_def defaultHeaders_def)

lemma build_headers_existing:
  assumes "rows sheet \<noteq> []"
  shows "fst (build_headers sheet) =
           (if Some ''MANUFACTURER'' \<in> set (header_names sheet) then header_names sheet
            else header_names sheet @ [Some ''MANUFACTURER''])"
    and "rows (snd (build_headers sheet)) =
           (if Some ''MANUFACTURER'' \<in> set (header_names sheet) then rows sheet
            else (None # map (map_option Str) (header_names sheet @ [Some ''MANUFACTURER'']))
                 # tl (rows sheet))"
  using assms
  by (simp_all add: build_headers_def rowCount_def header_names_def Let_def set_row_values_literal)


lemma build_headers_rows_nonempty: "rows (snd (build_headers sheet)) \<noteq> []"
  by (cases "rows sheet = []") (simp_all add: build_headers_fresh build_headers_existing)

lemma build_headers_data_rows: "drop 1 (rows (snd (build_headers sheet))) = drop 1 (rows sheet)"
  by (cases "rows sheet = []") (simp_all add: build_headers_fresh build_headers_existing drop_Suc)

lemma enforce_headers_rows:
  "rows (enforce_headers sheet) =
     (if rows sheet = [] then [map (\<lambda>h. Some (Str h)) defaultHeaders]
      else (map (\<lambda>h. Some (Str h)) defaultHeaders @ [Some (Str ''PRODUCT URL'')]) # tl (rows sheet))"
  by (cases "rows sheet")
     (simp_all add: enforce_headers_def rowCount_def set_columns_def header_row_def columnDefs_def
        set_row_values_canonical Let_def, simp_all add: defaultHeaders_def)

lemma enforce_headers_data_rows: "drop 1 (rows (enforce_headers sheet)) = drop 1 (rows sheet)"
  by (cases "rows sheet") (simp_all add: enforce_headers_rows drop_Suc)

lemma writeExcel_header:
  "header_row (writeExcel existing records d t) = header_row (snd (build_headers (open_sheet existing)))"
proof -
  obtain h rest where r: "rows (snd (build_headers (open_sheet existing))) = h # rest"
    using build_headers_rows_nonempty [of "open_sheet existing"] by (auto simp: neq_Nil_conv)
  show ?thesis by (simp add: header_row_def writeExcel_rows r)
qed

lemma writeExcel_data_rows:
  "data_rows (writeExcel existing records d t) =
     data_rows (open_sheet existing)
     @ map (\<lambda>rec. set_row_values
                     (rowValues (headerIndex (fst (build_headers (open_sheet existing)))) d t rec))
           records"
proof -
  obtain h rest where r: "rows (snd (build_headers (open_sheet existing))) = h # rest"
    using build_headers_rows_nonempty [of "open_sheet existing"] by (auto simp: neq_Nil_conv)
  have "rest = drop 1 (rows (open_sheet existing))"
    using build_headers_data_rows [of "open_sheet existing"] r by simp
  then show ?thesis
    by (simp add: data_rows_def writeExcel_rows r)
qed

lemma writeExcel_inline_data_rows:
  "data_rows (writeExcel_inline existing records d t) =
     data_rows (open_sheet existing)
     @ map (\<lambda>rec. [Some (Str d), Some (Str t), Some (text_cell (productName rec)),
                    Some (text_cell (sku rec)), Some (text_cell (description rec)),
                    Some (text_cell (mpn rec)), Some (text_cell (manufacturer rec)),
                    Some (price_cell (price rec)), Some (stock_cell (stock rec)),
                    Some (Str (productUrl rec))]) records"
proof -
  have "rows (enforce_headers (open_sheet existing)) \<noteq> []"
    by (simp add: enforce_headers_rows)
  then obtain h rest where r: "rows (enforce_headers (open_sheet existing)) = h # rest"
    by (auto simp: neq_Nil_conv)
  have "rest = drop 1 (rows (open_sheet existing))"
    using enforce_headers_data_rows [of "open_sheet existing"] r by simp
  then show ?thesis
    by (simp add: data_rows_def writeExcel_inline_rows r)
qed

section \<open>Numeric coercion of the price and the stock\<close>

lemma filter_head: "filter P s = x # xs \<Longrightarrow> P x"
proof -
  assume h: "filter P s = x # xs"
  have "x \<in> set (filter P s)" unfolding h by simp
  then show "P x" by simp
qed

lemma is_space_cases:
  "is_space c \<Longrightarrow> \<not> is_digit c \<and> c \<noteq> CHR ''-'' \<and> c \<noteq> CHR ''+'' \<and> c \<noteq> CHR ''.''"
  by (auto simp: is_space_def is_digit_def)

lemma is_digit_not_sign: "is_digit c \<Longrightarrow> c \<noteq> CHR ''-'' \<and> c \<noteq> CHR ''+''"
  by (auto simp: is_digit_def)

lemma parseInt_cleaned:
  assumes "cleaned = filter (\<lambda>c. is_digit c \<or> c = CHR ''-'') s"
  shows "parseInt cleaned =
     (let negative = (cleaned \<noteq> [] \<and> hd cleaned = CHR ''-'');
          ds = takeWhile is_digit (if negative then tl cleaned else cleaned)
      in if ds = [] then NaN
         else Finite (if negative then - of_nat (digits_value ds) else of_nat (digits_value ds)))"
proof (cases cleaned)
  case Nil
  then show ?thesis by (simp add: parseInt_def)
next
  case (Cons x xs)
  with assms have px: "is_digit x \<or> x = CHR ''-''"
    using filter_head [of "\<lambda>c. is_digit c \<or> c = CHR ''-''" s x xs] by simp
  then have nsp: "\<not> is_space x" using is_space_cases by blast
  from px have np: "x \<noteq> CHR ''+''" using is_digit_not_sign by auto
  show ?thesis
  proof (cases "x = CHR ''-''")
    case True
    with Cons nsp show ?thesis by (simp add: parseInt_def Let_def)
  next
    case False
    with Cons nsp np show ?thesis by (simp add: parseInt_def Let_def)
  qed
qed

text \<open>
  The value stored for a price string, in general: the string is kept when \<open>Number\<close> of
  the stripped string is \<^verbatim>\<open>NaN\<close>, and the number is stored otherwise.
\<close>

lemma price_cell_general:
  "price_cell (Some p) =
     (case Number (filter (\<lambda>c. is_digit c \<or> c = CHR ''.'' \<or> c = CHR ''-'') p) of
        NaN \<Rightarrow> Str p
      | Finite n \<Rightarrow> if p = [] then Str p else Num n)"
  by (simp add: price_cell_def parsePriceToNumber_def text_cell_def split: number.splits)

lemma price_cell_amount: "price_cell (Some ''$1,234.56'') = Num (123456 / 100)"
  by (simp add: price_cell_def parsePriceToNumber_def Number_def unsigned_decimal_def
      digits_value_def digit_value_def is_digit_def)

lemma price_cell_two_points: "price_cell (Some ''$1.234.56'') = Str ''$1.234.56''"
  by (simp add: price_cell_def parsePriceToNumber_def Number_def unsigned_decimal_def
      is_digit_def text_cell_def)

lemma price_from_extractor:
  "price (extractProductDetails (page_with_text ''Price: $, ask'')) = Some ''$,''"
proof -
  have "regex_match price_regex ''Price: $, ask'' = Some ''$,''" by code_simp
  then show ?thesis
    by (simp add: extractProductDetails_def Let_def details_text_def page_with_text_def
        or_empty_def)
qed

text \<open>
  C1 (the code departs from the claim). The claim has the price string
  \<^verbatim>\<open>Call for quote\<close> stored verbatim. No character of it is a digit, a point or a minus
  sign, so the stripped string is empty; \<open>Number\<close> of the empty string is 0, which is
  finite, and the PRICE cell receives the number 0. \<open>parseStockToNumber\<close> returns
  \<^verbatim>\<open>null\<close> on an empty stripped string; \<open>parsePriceToNumber\<close> has no such test. The
  extractor itself produces such a price: from a text with a dollar sign followed by a
  comma it reads the price \<^verbatim>\<open>$,\<close>, which is stored as 0 as well.
\<close>

theorem price_call_for_quote:
  "price_cell (Some ''Call for quote'') = Num 0
   \<and> price (extractProductDetails (page_with_text ''Price: $, ask'')) = Some ''$,''
   \<and> price_cell (Some ''$,'') = Num 0"
  using price_from_extractor
  by (simp add: price_cell_def parsePriceToNumber_def Number_def is_digit_def)

text \<open>
  C6. For every stock string \<open>s\<close> the value stored in the STOCK cell is found by keeping
  the digits and minus signs of \<open>s\<close> and reading the result as an integer, an optional
  minus sign followed by the longest run of digits; when the stripped string is empty or
  has no such run of digits, \<open>s\<close> itself is stored. \<^verbatim>\<open>12 in stock\<close> is stored as the
  number 12 and \<^verbatim>\<open>N/A\<close> as the string \<^verbatim>\<open>N/A\<close>.
\<close>

theorem stock_cell_spec:
  "stock_cell (Some s) =
     (let cleaned = filter (\<lambda>c. is_digit c \<or> c = CHR ''-'') s;
          negative = (cleaned \<noteq> [] \<and> hd cleaned = CHR ''-'');
          ds = takeWhile is_digit (if negative then tl cleaned else cleaned)
      in if ds = [] then Str s
         else Num (if negative then - of_nat (digits_value ds) else of_nat (digits_value ds)))
   \<and> stock_cell (Some ''12 in stock'') = Num 12
   \<and> stock_cell (Some ''N/A'') = Str ''N/A''"
proof (intro conjI)
  show "stock_cell (Some ''12 in stock'') = Num 12"
    by (simp add: stock_cell_def parseStockToNumber_def parseInt_def is_digit_def is_space_def
        digits_value_def digit_value_def)
  show "stock_cell (Some ''N/A'') = Str ''N/A''"
    by (simp add: stock_cell_def parseStockToNumber_def is_digit_def text_cell_def)
  define cleaned where "cleaned = filter (\<lambda>c. is_digit c \<or> c = CHR ''-'') s"
  note pi = parseInt_cleaned [OF cleaned_def]
  show "stock_cell (Some s) =
     (let cleaned = filter (\<lambda>c. is_digit c \<or> c = CHR ''-'') s;
          negative = (cleaned \<noteq> [] \<and> hd cleaned = CHR ''-'');
          ds = takeWhile is_digit (if negative then tl cleaned else cleaned)
      in if ds = [] then Str s
         else Num (if negative then - of_nat (digits_value ds) else of_nat (digits_value ds)))"
  proof (cases "cleaned = []")
    case True
    then show ?thesis
      unfolding cleaned_def [symmetric] Let_def
      by (auto simp: stock_cell_def parseStockToNumber_def text_cell_def cleaned_def [symmetric])
  next
    case False
    then have "s \<noteq> []" by (auto simp: cleaned_def)
    with False show ?thesis
      unfolding cleaned_def [symmetric] Let_def
      by (simp add: stock_cell_def parseStockToNumber_def text_cell_def cleaned_def [symmetric]
          pi Let_def)
  qed
qed

theorem stock_cell_spec_witness:
  "stock_cell (Some ''7-9'') = Num 7"
  using stock_cell_spec [of "''7-9''"]
  by (simp add: is_digit_def digits_value_def digit_value_def)

section \<open>The rows the writers append\<close>


lemma legacy_headers:
  "fst (build_headers legacy_sheet) =
     [Some ''DATE'', Some ''TIME'', Some ''Item Name'', Some ''SKU'', Some ''DESCRIPTION'',
      Some ''MPN'', Some ''PRICE'', Some ''STOCK'', Some ''PRODUCT URL'', Some ''MANUFACTURER'']"
  by (simp add: build_headers_def legacy_sheet_def rowCount_def read_headers_def row_values_def
      strip_holes_def header_text_def header_row_def)

lemma headerIndex_legacy:
  "headerIndex (fst (build_headers legacy_sheet)) ''Item Name'' = Some 3"
  "headerIndex (fst (build_headers legacy_sheet)) ''SKU'' = Some 4"
  "headerIndex (fst (build_headers legacy_sheet)) ''DESCRIPTION'' = Some 5"
  "headerIndex (fst (build_headers legacy_sheet)) ''MPN'' = Some 6"
  "headerIndex (fst (build_headers legacy_sheet)) ''PRICE'' = Some 7"
  "headerIndex (fst (build_headers legacy_sheet)) ''STOCK'' = Some 8"
  "headerIndex (fst (build_headers legacy_sheet)) ''PRODUCT URL'' = Some 9"
  "headerIndex (fst (build_headers legacy_sheet)) ''MANUFACTURER'' = Some 10"
  unfolding legacy_headers by (simp_all add: headerIndex_def)

lemma headerIndex_legacy_stamps:
  "headerIndex (fst (build_headers legacy_sheet)) ''DATE'' = Some 1"
  "headerIndex (fst (build_headers legacy_sheet)) ''TIME'' = Some 2"
  unfolding legacy_headers by (simp_all add: headerIndex_def)

text \<open>
  C4. Writing a batch of \<open>N\<close> records when there is no workbook file gives a worksheet of
  one header row followed by \<open>N\<close> data rows, one per record in the order of the batch; the
  header row is DATE, TIME, Item Name, SKU, DESCRIPTION, MPN, MANUFACTURER, PRICE, STOCK,
  PRODUCT URL in that order. Both writers produce these rows.
\<close>

theorem fresh_workbook:
  "rows (writeExcel None records d t) =
     map (\<lambda>h. Some (Str h))
       [''DATE'', ''TIME'', ''Item Name'', ''SKU'', ''DESCRIPTION'', ''MPN'', ''MANUFACTURER'',
        ''PRICE'', ''STOCK'', ''PRODUCT URL'']
     # map (\<lambda>rec. [Some (Str d), Some (Str t), Some (text_cell (productName rec)),
                    Some (text_cell (sku rec)), Some (text_cell (description rec)),
                    Some (text_cell (mpn rec)), Some (text_cell (manufacturer rec)),
                    Some (price_cell (price rec)), Some (stock_cell (stock rec)),
                    Some (Str (productUrl rec))]) records
   \<and> rows (writeExcel_inline None records d t) = rows (writeExcel None records d t)
   \<and> length (rows (writeExcel None records d t)) = 1 + length records
   \<and> length (data_rows (writeExcel None records d t)) = length records"
proof -
  have e: "rows (open_sheet None) = []" by (simp add: open_sheet_def addWorksheet_def)
  have a: "rows (writeExcel None records d t) =
     map (\<lambda>h. Some (Str h)) defaultHeaders
     # map (\<lambda>rec. [Some (Str d), Some (Str t), Some (text_cell (productName rec)),
                    Some (text_cell (sku rec)), Some (text_cell (description rec)),
                    Some (text_cell (mpn rec)), Some (text_cell (manufacturer rec)),
                    Some (price_cell (price rec)), Some (stock_cell (stock rec)),
                    Some (Str (productUrl rec))]) records"
    by (simp add: writeExcel_rows build_headers_fresh [OF e] canonical_row)
  have b: "rows (writeExcel_inline None records d t) = rows (writeExcel None records d t)"
    unfolding a by (simp add: writeExcel_inline_rows enforce_headers_fresh [OF e])
  from a b show ?thesis by (simp add: data_rows_def defaultHeaders_def)
qed

theorem fresh_workbook_witness:
  "rows (writeExcel None [url_only_record, example_record] ''11/03/2026'' ''09:15 AM PST'') =
     [[Some (Str ''DATE''), Some (Str ''TIME''), Some (Str ''Item Name''), Some (Str ''SKU''),
       Some (Str ''DESCRIPTION''), Some (Str ''MPN''), Some (Str ''MANUFACTURER''),
       Some (Str ''PRICE''), Some (Str ''STOCK''), Some (Str ''PRODUCT URL'')],
      [Some (Str ''11/03/2026''), Some (Str ''09:15 AM PST''), Some Null, Some Null, Some Null,
       Some Null, Some Null, Some Null, Some Null, Some (Str ''https://shop/p/2'')],
      [Some (Str ''11/03/2026''), Some (Str ''09:15 AM PST''), Some (Str ''Test strips''),
       Some (Str ''BS-1''), Some Null, Some Null, Some (Str ''ACME''), Some (Num (11 / 2)),
       Some (Num 3), Some (Str ''https://shop/p/1'')]]"
  using fresh_workbook [of "[url_only_record, example_record]" "''11/03/2026''" "''09:15 AM PST''"]
  by (simp add: url_only_record_def example_record_def text_cell_def price_cell_def stock_cell_def
      parsePriceToNumber_def parseStockToNumber_def Number_def parseInt_def unsigned_decimal_def
      is_digit_def is_space_def digits_value_def digit_value_def)

text \<open>
  C5. An append is cumulative. Whatever worksheet an earlier run left in the file, the
  data rows after the run are the data rows before it, unchanged and in place, followed by
  one new row per record of the batch: nothing is dropped, merged or overwritten, and the
  number of data rows grows by the size of the batch. This holds for both writers, also on
  an empty worksheet.
\<close>

theorem appends_are_cumulative:
  "data_rows (writeExcel (Some sheet) records d t) =
     data_rows sheet
     @ map (\<lambda>rec. set_row_values (rowValues (headerIndex (fst (build_headers sheet))) d t rec))
           records
   \<and> length (data_rows (writeExcel (Some sheet) records d t))
       = length (data_rows sheet) + length records
   \<and> data_rows (writeExcel_inline (Some sheet) records d t) =
     data_rows sheet
     @ map (\<lambda>rec. [Some (Str d), Some (Str t), Some (text_cell (productName rec)),
                    Some (text_cell (sku rec)), Some (text_cell (description rec)),
                    Some (text_cell (mpn rec)), Some (text_cell (manufacturer rec)),
                    Some (price_cell (price rec)), Some (stock_cell (stock rec)),
                    Some (Str (productUrl rec))]) records
   \<and> length (data_rows (writeExcel_inline (Some sheet) records d t))
       = length (data_rows sheet) + length records"
  using writeExcel_data_rows [of "Some sheet" records d t]
        writeExcel_inline_data_rows [of "Some sheet" records d t]
  by (simp add: open_sheet_def)

theorem appends_are_cumulative_witness:
  "data_rows (writeExcel (Some (writeExcel None [example_record] ''d1'' ''t1''))
                [example_record, example_record] ''d2'' ''t2'') =
     data_rows (writeExcel None [example_record] ''d1'' ''t1'')
     @ [[Some (Str ''d2''), Some (Str ''t2''), Some (Str ''Test strips''), Some (Str ''BS-1''),
         Some Null, Some Null, Some (Str ''ACME''), Some (Num (11 / 2)), Some (Num 3),
         Some (Str ''https://shop/p/1'')],
        [Some (Str ''d2''), Some (Str ''t2''), Some (Str ''Test strips''), Some (Str ''BS-1''),
         Some Null, Some Null, Some (Str ''ACME''), Some (Num (11 / 2)), Some (Num 3),
         Some (Str ''https://shop/p/1'')]]
   \<and> length (data_rows (writeExcel (Some (writeExcel None [example_record] ''d1'' ''t1''))
                [example_record, example_record] ''d2'' ''t2'')) = 1 + 2"
proof -
  have r1: "rows (writeExcel None [example_record] ''d1'' ''t1'') =
      map (\<lambda>h. Some (Str h)) defaultHeaders #
      [set_row_values (rowValues (headerIndex (map Some defaultHeaders)) ''d1'' ''t1'' example_record)]"
    by (simp add: writeExcel_rows open_sheet_def addWorksheet_def build_headers_fresh)
  have h: "fst (build_headers (writeExcel None [example_record] ''d1'' ''t1'')) = map Some defaultHeaders"
    by (simp add: build_headers_existing header_names_def header_row_def r1 read_headers_default)
       (simp add: defaultHeaders_def)
  have c: "set_row_values (rowValues (headerIndex (map Some defaultHeaders)) d t example_record) =
      [Some (Str d), Some (Str t), Some (Str ''Test strips''), Some (Str ''BS-1''),
         Some Null, Some Null, Some (Str ''ACME''), Some (Num (11 / 2)), Some (Num 3),
         Some (Str ''https://shop/p/1'')]" for d t
    by (simp add: canonical_row example_record_def text_cell_def price_cell_def stock_cell_def
      parsePriceToNumber_def parseStockToNumber_def Number_def parseInt_def unsigned_decimal_def
      is_digit_def is_space_def digits_value_def digit_value_def)
  show ?thesis
    using appends_are_cumulative [of "writeExcel None [example_record] ''d1'' ''t1''"
        "[example_record, example_record]" "''d2''" "''t2''"]
    by (simp add: h c data_rows_def r1)
qed





lemma legacy_names:
  "header_names legacy_sheet =
     [Some ''DATE'', Some ''TIME'', Some ''Item Name'', Some ''SKU'', Some ''DESCRIPTION'',
      Some ''MPN'', Some ''PRICE'', Some ''STOCK'', Some ''PRODUCT URL'']"
  by (simp add: header_names_def header_row_def legacy_sheet_def read_headers_def
      row_values_def strip_holes_def header_text_def)

lemma legacy_row:
  "set_row_values (rowValues (headerIndex (fst (build_headers legacy_sheet))) d t rec) =
     [Some (Str d), Some (Str t), Some (text_cell (productName rec)), Some (text_cell (sku rec)),
      Some (text_cell (description rec)), Some (text_cell (mpn rec)),
      Some (price_cell (price rec)), Some (stock_cell (stock rec)),
      Some (Str (productUrl rec)), Some (text_cell (manufacturer rec))]"
  by (simp add: rowValues_def headerIndex_legacy headerIndex_legacy_stamps arr_set_def truthy_def
      set_row_values_def Let_def cell_of_cells cell_of_None numeral_3_eq_3)

lemma legacy_writeExcel_header:
  "header_row (writeExcel (Some legacy_sheet) records d t) =
     None # map (\<lambda>h. Some (Str h))
       [''DATE'', ''TIME'', ''Item Name'', ''SKU'', ''DESCRIPTION'', ''MPN'', ''PRICE'', ''STOCK'',
        ''PRODUCT URL'', ''MANUFACTURER'']"
proof -
  have ne: "rows legacy_sheet \<noteq> []" by (simp add: legacy_sheet_def)
  show ?thesis
    unfolding writeExcel_header using build_headers_existing(2) [OF ne]
    by (simp add: open_sheet_def legacy_names header_row_def)
qed

lemma inline_header:
  "header_row (writeExcel_inline existing records d t) =
     (if rows (open_sheet existing) = [] then map (\<lambda>h. Some (Str h)) defaultHeaders
      else map (\<lambda>h. Some (Str h)) defaultHeaders @ [Some (Str ''PRODUCT URL'')])"
  by (simp add: writeExcel_inline_rows enforce_headers_rows header_row_def)









section \<open>The header row\<close>


text \<open>
  C2 (the code departs from the claim). The claim has the append leave every name of the
  header row in its column. On a workbook written before MANUFACTURER existed,
  \<open>writeExcel\<close> adds the name to its array \<^verbatim>\<open>headers\<close> and assigns
  \<^verbatim>\<open>[undefined, ...headers]\<close> to the values of row 1. That array has an element at index
  0, so the library puts the element of index \<open>n\<close> into column \<open>n + 1\<close>: column 1 is left
  without a cell and every name moves one column to the right, PRICE from column 7 to
  column 8, with MANUFACTURER in column 11. The program counts the columns from 1
  (\<^verbatim>\<open>headerIndex[h] = idx + 1; // 1-based\<close>) and writes the rows of the run by these
  numbers, from arrays that have no element at index 0: the new row has its price in
  column 7, under MPN, and its manufacturer in column 10, under PRODUCT URL. The inline
  writer assigns an array of the same form: the canonical names go to columns 2 to 11,
  \<^verbatim>\<open>sheet.columns\<close> then writes them into columns 1 to 10, and PRODUCT URL stays in
  column 11 as well; PRICE has moved from column 7 to column 8 there too.
\<close>

theorem header_extension_moves_names:
  "header_row legacy_sheet =
     map (\<lambda>h. Some (Str h))
       [''DATE'', ''TIME'', ''Item Name'', ''SKU'', ''DESCRIPTION'', ''MPN'', ''PRICE'', ''STOCK'',
        ''PRODUCT URL'']
   \<and> header_row (writeExcel (Some legacy_sheet) [example_record] ''d'' ''t'') =
     None # map (\<lambda>h. Some (Str h))
       [''DATE'', ''TIME'', ''Item Name'', ''SKU'', ''DESCRIPTION'', ''MPN'', ''PRICE'', ''STOCK'',
        ''PRODUCT URL'', ''MANUFACTURER'']
   \<and> cell_at (header_row legacy_sheet) 7 = Some (Str ''PRICE'')
   \<and> cell_at (header_row (writeExcel (Some legacy_sheet) [example_record] ''d'' ''t'')) 7
       = Some (Str ''MPN'')
   \<and> cell_at (header_row (writeExcel (Some legacy_sheet) [example_record] ''d'' ''t'')) 8
       = Some (Str ''PRICE'')
   \<and> data_rows (writeExcel (Some legacy_sheet) [example_record] ''d'' ''t'') =
       data_rows legacy_sheet
       @ [[Some (Str ''d''), Some (Str ''t''), Some (Str ''Test strips''), Some (Str ''BS-1''),
           Some Null, Some Null, Some (Num (11 / 2)), Some (Num 3),
           Some (Str ''https://shop/p/1''), Some (Str ''ACME'')]]
   \<and> header_row (writeExcel_inline (Some legacy_sheet) [example_record] ''d'' ''t'') =
     map (\<lambda>h. Some (Str h))
       [''DATE'', ''TIME'', ''Item Name'', ''SKU'', ''DESCRIPTION'', ''MPN'', ''MANUFACTURER'',
        ''PRICE'', ''STOCK'', ''PRODUCT URL'', ''PRODUCT URL'']"
proof -
  have a: "header_row legacy_sheet =
     map (\<lambda>h. Some (Str h))
       [''DATE'', ''TIME'', ''Item Name'', ''SKU'', ''DESCRIPTION'', ''MPN'', ''PRICE'', ''STOCK'',
        ''PRODUCT URL'']"
    by (simp add: header_row_def legacy_sheet_def)
  have ne: "rows (open_sheet (Some legacy_sheet)) \<noteq> []"
    by (simp add: open_sheet_def legacy_sheet_def)
  have c: "data_rows (writeExcel (Some legacy_sheet) [example_record] ''d'' ''t'') =
       data_rows legacy_sheet
       @ [[Some (Str ''d''), Some (Str ''t''), Some (Str ''Test strips''), Some (Str ''BS-1''),
           Some Null, Some Null, Some (Num (11 / 2)), Some (Num 3),
           Some (Str ''https://shop/p/1''), Some (Str ''ACME'')]]"
    by (simp add: writeExcel_data_rows open_sheet_def legacy_row)
       (simp add: example_record_def text_cell_def price_cell_def stock_cell_def
          parsePriceToNumber_def parseStockToNumber_def Number_def parseInt_def unsigned_decimal_def
          is_digit_def is_space_def digits_value_def digit_value_def)
  have i: "header_row (writeExcel_inline (Some legacy_sheet) [example_record] ''d'' ''t'') =
     map (\<lambda>h. Some (Str h))
       [''DATE'', ''TIME'', ''Item Name'', ''SKU'', ''DESCRIPTION'', ''MPN'', ''MANUFACTURER'',
        ''PRICE'', ''STOCK'', ''PRODUCT URL'', ''PRODUCT URL'']"
    unfolding inline_header using ne by (simp add: defaultHeaders_def)
  show ?thesis
    unfolding legacy_writeExcel_header a c i by (simp add: cell_at_def arr_get_def)
qed

section \<open>The two writers compared\<close>






section \<open>The credentials\<close>

lemma perform_no_config: "fst (perform ok as trace) \<noteq> Some (ConfigError m)"
  by (induction as arbitrary: trace) simp_all

lemma test_until_login_unfold:
  "test_until_login env ok =
     (if ok Mkdir then loginIfNeeded env ok [Mkdir] else (Some (ActionFailed Mkdir), [Mkdir]))"
  by (simp add: test_until_login_def)

text \<open>
  C9. When either of \<^verbatim>\<open>MEDSTAT_EMAIL\<close> and \<^verbatim>\<open>MEDSTAT_PASSWORD\<close> is missing or empty,
  \<open>loginIfNeeded\<close> fails with the configuration error before it performs any action; the
  test has then only created the output directory, so the run fails and no page has been
  navigated to. When both are set and not empty the configuration error is not raised:
  the only failures left are those of the actions, and when every action succeeds the
  login page is the first thing opened.
\<close>

theorem credentials_checked_before_navigation:
  "(env ''MEDSTAT_EMAIL'' = None \<or> env ''MEDSTAT_EMAIL'' = Some []
      \<or> env ''MEDSTAT_PASSWORD'' = None \<or> env ''MEDSTAT_PASSWORD'' = Some [] \<longrightarrow>
      loginIfNeeded env ok trace =
        (Some (ConfigError ''Please set MEDSTAT_EMAIL and MEDSTAT_PASSWORD in your .env file.''), trace)
      \<and> (ok Mkdir \<longrightarrow> test_until_login env ok =
        (Some (ConfigError ''Please set MEDSTAT_EMAIL and MEDSTAT_PASSWORD in your .env file.''), [Mkdir]))
      \<and> fst (test_until_login env ok) \<noteq> None
      \<and> filter is_navigation (snd (test_until_login env ok)) = [])
   \<and> (env ''MEDSTAT_EMAIL'' = Some e \<and> e \<noteq> [] \<and> env ''MEDSTAT_PASSWORD'' = Some pw \<and> pw \<noteq> [] \<longrightarrow>
      fst (loginIfNeeded env ok trace) \<noteq> Some (ConfigError m)
      \<and> fst (test_until_login env ok) \<noteq> Some (ConfigError m)
      \<and> ((\<forall>a. ok a) \<longrightarrow> fst (test_until_login env ok) = None
            \<and> take 2 (snd (test_until_login env ok)) = [Mkdir, Goto LOGIN_URL]))"
proof (intro conjI impI)
  assume h: "env ''MEDSTAT_EMAIL'' = None \<or> env ''MEDSTAT_EMAIL'' = Some []
      \<or> env ''MEDSTAT_PASSWORD'' = None \<or> env ''MEDSTAT_PASSWORD'' = Some []"
  then have e: "or_empty (env ''MEDSTAT_EMAIL'') = [] \<or> or_empty (env ''MEDSTAT_PASSWORD'') = []"
    by (auto simp: or_empty_def)
  then show l: "loginIfNeeded env ok trace =
        (Some (ConfigError ''Please set MEDSTAT_EMAIL and MEDSTAT_PASSWORD in your .env file.''), trace)"
    for trace
    by (simp add: loginIfNeeded_def Let_def)
  show "test_until_login env ok =
        (Some (ConfigError ''Please set MEDSTAT_EMAIL and MEDSTAT_PASSWORD in your .env file.''), [Mkdir])"
    if "ok Mkdir"
    using that by (simp add: test_until_login_unfold l)
  show "fst (test_until_login env ok) \<noteq> None"
    by (cases "ok Mkdir") (simp_all add: test_until_login_unfold l)
  show "filter is_navigation (snd (test_until_login env ok)) = []"
    by (cases "ok Mkdir") (simp_all add: test_until_login_unfold l is_navigation_def)
next
  assume h: "env ''MEDSTAT_EMAIL'' = Some e \<and> e \<noteq> [] \<and> env ''MEDSTAT_PASSWORD'' = Some pw \<and> pw \<noteq> []"
  then have l: "loginIfNeeded env ok trace =
      perform ok [Goto LOGIN_URL, Click ''Email Address'', Fill ''Email Address'' e,
                 Click ''Password'', Fill ''Password'' pw, Click ''Log In'',
                 WaitForLoadState] trace" for trace
    by (simp add: loginIfNeeded_def Let_def or_empty_def)
  show "fst (loginIfNeeded env ok trace) \<noteq> Some (ConfigError m)"
    unfolding l by (rule perform_no_config)
  show "fst (test_until_login env ok) \<noteq> Some (ConfigError m)"
    unfolding test_until_login_unfold l
    using perform_no_config [of ok _ "[Mkdir]" m] by simp
  show "fst (test_until_login env ok) = None" if "\<forall>a. ok a"
    using that by (simp add: test_until_login_unfold l)
  show "take 2 (snd (test_until_login env ok)) = [Mkdir, Goto LOGIN_URL]" if "\<forall>a. ok a"
    using that by (simp add: test_until_login_unfold l)
qed

theorem credentials_checked_before_navigation_witness:
  "test_until_login (Map.empty(''MEDSTAT_EMAIL'' \<mapsto> ''buyer@example.org'')) (\<lambda>a. True) =
     (Some (ConfigError ''Please set MEDSTAT_EMAIL and MEDSTAT_PASSWORD in your .env file.''), [Mkdir])
   \<and> fst (test_until_login
        (Map.empty(''MEDSTAT_EMAIL'' \<mapsto> ''buyer@example.org'', ''MEDSTAT_PASSWORD'' \<mapsto> ''secret''))
        (\<lambda>a. True)) = None
   \<and> take 2 (snd (test_until_login
        (Map.empty(''MEDSTAT_EMAIL'' \<mapsto> ''buyer@example.org'', ''MEDSTAT_PASSWORD'' \<mapsto> ''secret''))
        (\<lambda>a. True))) = [Mkdir, Goto LOGIN_URL]"
  using credentials_checked_before_navigation
      [of "Map.empty(''MEDSTAT_EMAIL'' \<mapsto> ''buyer@example.org'')" "\<lambda>a. True" "[]" "''x''" "''y''" "''z''"]
    credentials_checked_before_navigation
      [of "Map.empty(''MEDSTAT_EMAIL'' \<mapsto> ''buyer@example.org'', ''MEDSTAT_PASSWORD'' \<mapsto> ''secret'')"
          "\<lambda>a. True" "[]" "''buyer@example.org''" "''secret''" "''z''"]
  by simp

section \<open>Lemmas on the matcher\<close>


lemma first_some_None: "(\<And>x. x \<in> set xs \<Longrightarrow> f x = None) \<Longrightarrow> first_some f xs = None"
  by (induction xs) auto




lemma run_WordBoundary:
  "run ((g, WordBoundary) # r) prev inp cap =
     (if word_at prev \<noteq> word_at (next_char inp) then run r prev inp cap else None)"
  by (simp add: run.simps Let_def last_char_def)

lemma run_Literal:
  "run ((g, Literal s) # r) prev inp cap =
     (if literal_at s inp
      then run r (last_char prev (take (length s) inp)) (drop (length s) inp)
                 (if g then cap @ take (length s) inp else cap)
      else None)"
  by (simp add: run.simps Let_def)

lemma label_regex_needs_literal:
  "\<not> literal_at label inp \<Longrightarrow> run (label_regex label) prev inp cap = None"
  by (simp add: label_regex_def run_WordBoundary run_Literal)



lemma matchAfter_not_empty: "matchAfter t re \<noteq> Some []"
  by (simp add: matchAfter_def or_null_def split: option.splits)

lemma js_or_None: "matchAfter t re = v \<Longrightarrow> js_or v None = v"
  using matchAfter_not_empty [of t re] by (auto simp: js_or_def split: option.splits)







lemma sku_extract:
  "sku (extractProductDetails pg) =
     (case matchAfter (details_text pg) (label_regex ''SKU'') of
        Some v \<Rightarrow> Some v
      | None \<Rightarrow> matchAfter (details_text pg) (label_regex ''Item''))"
  using matchAfter_not_empty [of "details_text pg" "label_regex ''SKU''"]
    matchAfter_not_empty [of "details_text pg" "label_regex ''Item''"]
  by (auto simp: extractProductDetails_def Let_def js_or_def split: option.splits)

lemma other_fields_extract:
  "mpn (extractProductDetails pg) = matchAfter (details_text pg) (label_regex ''MPN'')"
  "manufacturer (extractProductDetails pg) = matchAfter (details_text pg) (label_regex ''MANUFACTURER'')"
  "stock (extractProductDetails pg) = matchAfter (details_text pg) (label_regex ''Current Stock'')"
  "description (extractProductDetails pg) = matchAfter (details_text pg) description_regex"
  by (simp_all add: extractProductDetails_def Let_def js_or_None)

lemma matchAfter_Some:
  "(matchAfter t re = Some v) = (\<exists>m. regex_match re t = Some m \<and> trim m = v \<and> v \<noteq> [])"
  by (auto simp: matchAfter_def or_null_def split: option.splits)

lemma label_absent:
  assumes "\<forall>i \<le> length t. \<not> literal_at label (drop i t)"
  shows "matchAfter t (label_regex label) = None"
proof -
  have "regex_match (label_regex label) t = None"
    unfolding regex_match_def
    by (rule first_some_None) (use assms in \<open>auto simp: label_regex_needs_literal\<close>)
  then show ?thesis by (simp add: matchAfter_def)
qed

lemma description_absent:
  assumes "\<forall>i \<le> length t. \<not> literal_at ''Description'' (drop i t)"
  shows "matchAfter t description_regex = None"
proof -
  have "run description_regex prev inp cap = None" if "\<not> literal_at ''Description'' inp"
    for prev inp cap
    using that by (simp add: description_regex_def run_WordBoundary run_Literal)
  then have "regex_match description_regex t = None"
    unfolding regex_match_def
    by (intro first_some_None) (use assms in auto)
  then show ?thesis by (simp add: matchAfter_def)
qed

lemma details_text_page: "details_text (page_with_text t) = t"
  by (simp add: details_text_def page_with_text_def or_empty_def)



lemma example_priority_sku: "matchAfter ''Item: X9\<newline>SKU: A-1'' (label_regex ''SKU'') = Some ''A-1''"
  by code_simp

lemma example_trailing_item: "matchAfter ''Item: 7\<newline>SKU '' (label_regex ''Item'') = Some ''7''"
  by code_simp

lemma example_trailing_sku: "regex_match (label_regex ''SKU'') ''Item: 7\<newline>SKU '' = Some '' ''"
  by code_simp


lemma extract_nothing:
  "extractProductDetails \<lparr> url = u, h1_textContent = None, details_innerText = None, body_innerText = None \<rparr>
   = \<lparr> productUrl = u, productName = None, sku = None, mpn = None, manufacturer = None,
       price = None, stock = None, description = None \<rparr>"
  by (simp add: extractProductDetails_def details_text_def or_empty_def matchAfter_def regex_match_def
     label_regex_def description_regex_def price_regex_def run_WordBoundary run_Literal literal_at_def
     run.simps js_or_def last_char_def)

section \<open>The label synonyms\<close>

lemma example_priority_item: "matchAfter ''Item: X9\<newline>SKU: A-1'' (label_regex ''Item'') = Some ''X9''"
  by code_simp

lemma example_no_labels:
  "matchAfter ''Lancets 30G'' (label_regex ''SKU'') = None"
  "matchAfter ''Lancets 30G'' (label_regex ''Item'') = None"
  by code_simp+

lemma example_no_mpn:
  "\<forall>i \<le> length ''Item: X9\<newline>SKU: A-1''. \<not> literal_at ''MPN'' (drop i ''Item: X9\<newline>SKU: A-1'')"
proof -
  have "\<forall>i < Suc (length ''Item: X9\<newline>SKU: A-1''). \<not> literal_at ''MPN'' (drop i ''Item: X9\<newline>SKU: A-1'')"
    by (simp add: All_less_Suc eval_nat_numeral literal_at_def upper_def)
  then show ?thesis by (simp only: less_Suc_eq_le)
qed

lemma example_no_description:
  "\<forall>i \<le> length ''Item: X9\<newline>SKU: A-1''.
     \<not> literal_at ''Description'' (drop i ''Item: X9\<newline>SKU: A-1'')"
proof -
  have "\<forall>i < Suc (length ''Item: X9\<newline>SKU: A-1'').
      \<not> literal_at ''Description'' (drop i ''Item: X9\<newline>SKU: A-1'')"
    by (simp add: All_less_Suc eval_nat_numeral literal_at_def upper_def)
  then show ?thesis by (simp only: less_Suc_eq_le)
qed

lemma example_padded_sku:
  "regex_match (label_regex ''SKU'') ''SKU: A-1  '' = Some ''A-1  ''"
  "matchAfter ''SKU: A-1  '' (label_regex ''SKU'') = Some ''A-1''"
  by code_simp+

text \<open>
  C8 (as stated it fails). The claim has the field be the capture of the first synonym
  that matches. In the text \<^verbatim>\<open>Item: 7\<close>, a line break, \<^verbatim>\<open>SKU\<close> and a space, the pattern
  of SKU matches and captures the space, yet the sku is \<^verbatim>\<open>7\<close>, the capture of the
  pattern of Item: a capture that trims to nothing is passed over. And what is returned is
  the capture trimmed: the pattern of SKU captures \<^verbatim>\<open>A-1\<close> with two spaces after it, and
  the sku is \<^verbatim>\<open>A-1\<close>.
\<close>

theorem blank_match_is_passed_over:
  "regex_match (label_regex ''SKU'') ''Item: 7\<newline>SKU '' = Some '' ''
   \<and> sku (extractProductDetails (page_with_text ''Item: 7\<newline>SKU '')) = Some ''7''
   \<and> regex_match (label_regex ''SKU'') ''SKU: A-1  '' = Some ''A-1  ''
   \<and> sku (extractProductDetails (page_with_text ''SKU: A-1  '')) = Some ''A-1''"
  using sku_extract [of "page_with_text ''Item: 7\<newline>SKU ''"]
    sku_extract [of "page_with_text ''SKU: A-1  ''"]
    example_trailing_sku example_trailing_item example_padded_sku
  by (simp add: details_text_page matchAfter_def trim_def is_space_def or_null_def)

text \<open>
  C8 (amended). Every labelled field is the result of \<open>matchAfter\<close> on its label patterns
  in their fixed order: for the sku the pattern of SKU first and, when that yields nothing,
  the pattern of Item; the other fields have one pattern each. A pattern yields a value
  when it matches and its capture, trimmed, is not empty, and the value is the trimmed
  capture of the leftmost match. A field none of whose patterns yields a value is absent,
  as is every field whose label does not occur in the text. Extraction has no failure: the
  page driver's rejections are caught, and a page that gives no text at all yields the
  record with all fields absent but the address.
\<close>

theorem synonyms_in_priority_order:
  "sku (extractProductDetails pg) =
     (case matchAfter (details_text pg) (label_regex ''SKU'') of
        Some v \<Rightarrow> Some v
      | None \<Rightarrow> matchAfter (details_text pg) (label_regex ''Item''))
   \<and> mpn (extractProductDetails pg) = matchAfter (details_text pg) (label_regex ''MPN'')
   \<and> manufacturer (extractProductDetails pg)
       = matchAfter (details_text pg) (label_regex ''MANUFACTURER'')
   \<and> stock (extractProductDetails pg) = matchAfter (details_text pg) (label_regex ''Current Stock'')
   \<and> description (extractProductDetails pg) = matchAfter (details_text pg) description_regex
   \<and> (matchAfter t re = Some v) = (\<exists>m. regex_match re t = Some m \<and> trim m = v \<and> v \<noteq> [])
   \<and> ((\<forall>i \<le> length t. \<not> literal_at label (drop i t)) \<longrightarrow>
        matchAfter t (label_regex label) = None)
   \<and> ((\<forall>i \<le> length t. \<not> literal_at ''Description'' (drop i t)) \<longrightarrow>
        matchAfter t description_regex = None)
   \<and> (matchAfter (details_text pg) (label_regex ''SKU'') = None
        \<and> matchAfter (details_text pg) (label_regex ''Item'') = None \<longrightarrow>
        sku (extractProductDetails pg) = None)
   \<and> extractProductDetails
        \<lparr> url = u, h1_textContent = None, details_innerText = None, body_innerText = None \<rparr>
       = \<lparr> productUrl = u, productName = None, sku = None, mpn = None, manufacturer = None,
           price = None, stock = None, description = None \<rparr>"
  using sku_extract [of pg] other_fields_extract [of pg] matchAfter_Some [of t re v]
    label_absent [of t label] description_absent [of t] extract_nothing [of u]
  by simp

theorem synonyms_in_priority_order_witness:
  "sku (extractProductDetails (page_with_text ''Item: X9\<newline>SKU: A-1'')) = Some ''A-1''
   \<and> matchAfter ''Item: X9\<newline>SKU: A-1'' (label_regex ''Item'') = Some ''X9''
   \<and> mpn (extractProductDetails (page_with_text ''Item: X9\<newline>SKU: A-1'')) = None
   \<and> description (extractProductDetails (page_with_text ''Item: X9\<newline>SKU: A-1'')) = None
   \<and> matchAfter ''Lancets 30G'' (label_regex ''SKU'') = None
   \<and> matchAfter ''Lancets 30G'' (label_regex ''Item'') = None
   \<and> sku (extractProductDetails (page_with_text ''Lancets 30G'')) = None"
  using synonyms_in_priority_order [of "page_with_text ''Item: X9\<newline>SKU: A-1''"
      "''Item: X9\<newline>SKU: A-1''" "label_regex ''MPN''" "''x''" "''MPN''" "''u''"]
    synonyms_in_priority_order [of "page_with_text ''Lancets 30G''"
      "''Item: X9\<newline>SKU: A-1''" "label_regex ''MPN''" "''x''" "''MPN''" "''u''"]
    example_priority_sku example_priority_item example_no_mpn example_no_description
    example_no_labels
  by (simp add: details_text_page)




end
